theory Spec2Isabelle
  imports Complex_Main "HOL-Library.Log_Nat" "HOL-Library.Word"
begin

section \<open>Numbers (the TypeScript type \<open>number\<close>)\<close>

text \<open>
  A \<open>number\<close> is an IEEE-754 double: a finite value, an infinity or \<open>NaN\<close>. Every
  arithmetic operation computes the exact real result and rounds it to the nearest double,
  ties to even; results that are too large become an infinity, results that are too small
  become subnormal or zero.

  \<^item> \<open>expo x\<close> is the binary exponent of \<open>x\<close>: \<open>2 ^ expo x \<le> |x| < 2 ^ (expo x + 1)\<close>.
  \<^item> \<open>quantum x\<close> is the exponent of the spacing of the doubles around \<open>x\<close>: 53 significant
    bits, and never below \<open>2 ^ -1074\<close>, the smallest subnormal.
  \<^item> \<open>fl x\<close> is \<open>x\<close> rounded to the nearest multiple of \<open>2 ^ quantum x\<close>, ties to even.
  \<^item> \<open>rnd x\<close> is the double that an operation with the exact result \<open>x\<close> returns: an
    infinity when the rounded value reaches \<open>2 ^ 1024\<close>.

  The two zeros are one value here, \<open>Fin 0\<close>: \<open>===\<close> and the comparisons cannot tell
  \<open>-0\<close> from \<open>+0\<close>. A quotient by zero takes the sign of its numerator, as it does for the
  divisor \<open>+0\<close>; the one division of the program divides by \<open>1 - platformFeeRate\<close>, which
  is \<open>+0\<close> whenever it is zero.

  \<open>Undefined\<close> is the value \<open>undefined\<close> in a place declared \<open>number\<close>: the spread of a
  \<open>Partial<...>\<close> object can put it there. Arithmetic converts it to \<open>NaN\<close>.
\<close>

definition expo :: "real \<Rightarrow> int" where
  "expo x =
     (if 1 \<le> \<bar>x\<bar> then bitlen \<lfloor>\<bar>x\<bar>\<rfloor> - 1 else - bitlen (\<lceil>1 / \<bar>x\<bar>\<rceil> - 1))"

definition emin :: int where
  "emin = - 1074"

definition quantum :: "real \<Rightarrow> int" where
  "quantum x = max (expo x - 52) emin"

definition round_even :: "real \<Rightarrow> int" where
  "round_even y =
     (let n = \<lfloor>y\<rfloor>; r = y - of_int n
      in if r < 1 / 2 then n else if 1 / 2 < r then n + 1 else if even n then n else n + 1)"

definition fl :: "real \<Rightarrow> real" where
  "fl x = of_int (round_even (x / 2 powi quantum x)) * 2 powi quantum x"

datatype number = Fin real | PosInf | NegInf | NaN | Undefined

definition rnd :: "real \<Rightarrow> number" where
  "rnd x =
     (let y = fl x
      in if 1024 \<le> expo y then (if 0 < y then PosInf else NegInf) else Fin y)"

text \<open>\<open>a + b\<close>, \<open>a - b\<close>, \<open>a * b\<close>, \<open>a / b\<close>\<close>

fun fadd :: "number \<Rightarrow> number \<Rightarrow> number" where
  "fadd (Fin x) (Fin y) = rnd (x + y)"
| "fadd (Fin x) PosInf = PosInf"
| "fadd (Fin x) NegInf = NegInf"
| "fadd PosInf (Fin y) = PosInf"
| "fadd PosInf PosInf = PosInf"
| "fadd NegInf (Fin y) = NegInf"
| "fadd NegInf NegInf = NegInf"
| "fadd _ _ = NaN"

fun fsub :: "number \<Rightarrow> number \<Rightarrow> number" where
  "fsub (Fin x) (Fin y) = rnd (x - y)"
| "fsub (Fin x) PosInf = NegInf"
| "fsub (Fin x) NegInf = PosInf"
| "fsub PosInf (Fin y) = PosInf"
| "fsub PosInf NegInf = PosInf"
| "fsub NegInf (Fin y) = NegInf"
| "fsub NegInf PosInf = NegInf"
| "fsub _ _ = NaN"

fun fmul :: "number \<Rightarrow> number \<Rightarrow> number" where
  "fmul (Fin x) (Fin y) = rnd (x * y)"
| "fmul (Fin x) PosInf = (if 0 < x then PosInf else if x < 0 then NegInf else NaN)"
| "fmul (Fin x) NegInf = (if 0 < x then NegInf else if x < 0 then PosInf else NaN)"
| "fmul PosInf (Fin y) = (if 0 < y then PosInf else if y < 0 then NegInf else NaN)"
| "fmul NegInf (Fin y) = (if 0 < y then NegInf else if y < 0 then PosInf else NaN)"
| "fmul PosInf PosInf = PosInf"
| "fmul PosInf NegInf = NegInf"
| "fmul NegInf PosInf = NegInf"
| "fmul NegInf NegInf = PosInf"
| "fmul _ _ = NaN"

fun fdiv :: "number \<Rightarrow> number \<Rightarrow> number" where
  "fdiv (Fin x) (Fin y) =
     (if y = 0 then (if 0 < x then PosInf else if x < 0 then NegInf else NaN)
      else rnd (x / y))"
| "fdiv (Fin x) PosInf = Fin 0"
| "fdiv (Fin x) NegInf = Fin 0"
| "fdiv PosInf (Fin y) = (if 0 \<le> y then PosInf else NegInf)"
| "fdiv NegInf (Fin y) = (if 0 \<le> y then NegInf else PosInf)"
| "fdiv _ _ = NaN"

fun Math_ceil :: "number \<Rightarrow> number" where
  "Math_ceil (Fin x) = Fin (of_int \<lceil>x\<rceil>)"
| "Math_ceil PosInf = PosInf"
| "Math_ceil NegInf = NegInf"
| "Math_ceil _ = NaN"

text \<open>\<open>a < b\<close> and \<open>a <= b\<close>; \<open>a > b\<close> is \<open>b < a\<close> and \<open>a >= b\<close> is \<open>b <= a\<close>.\<close>

fun lt :: "number \<Rightarrow> number \<Rightarrow> bool" where
  "lt (Fin x) (Fin y) = (x < y)"
| "lt (Fin x) PosInf = True"
| "lt NegInf (Fin y) = True"
| "lt NegInf PosInf = True"
| "lt _ _ = False"

fun le :: "number \<Rightarrow> number \<Rightarrow> bool" where
  "le (Fin x) (Fin y) = (x \<le> y)"
| "le (Fin x) PosInf = True"
| "le NegInf (Fin y) = True"
| "le NegInf PosInf = True"
| "le NegInf NegInf = True"
| "le PosInf PosInf = True"
| "le _ _ = False"

definition gt :: "number \<Rightarrow> number \<Rightarrow> bool" where
  "gt a b = lt b a"

definition ge :: "number \<Rightarrow> number \<Rightarrow> bool" where
  "ge a b = le b a"

text \<open>\<open>a || b\<close> on numbers: \<open>NaN\<close>, 0 and \<open>undefined\<close> are falsy.\<close>

definition num_or :: "number \<Rightarrow> number \<Rightarrow> number" where
  "num_or a b = (if a = NaN \<or> a = Fin 0 \<or> a = Undefined then b else a)"

text \<open>
  The double that stands for itself: a finite value that rounding leaves alone.
\<close>

definition isDouble :: "real \<Rightarrow> bool" where
  "isDouble x = (fl x = x \<and> expo x < 1024)"

section \<open>Strings (the TypeScript type \<open>string\<close>)\<close>

text \<open>
  A string is a sequence of UTF-16 code units. \<open>String.prototype.trim\<close> removes white
  space and line terminators from both ends: TAB, LF, VT, FF, CR, SPACE, NBSP, the
  space separators U+1680, U+2000 to U+200A, U+202F, U+205F and U+3000, the line and
  paragraph separators U+2028 and U+2029, and U+FEFF. \<open>utf16\<close> writes an ASCII text as
  a string.
\<close>

type_synonym jsstring = "16 word list"

definition utf16 :: "string \<Rightarrow> jsstring" where
  "utf16 s = map (\<lambda>c. of_nat (of_char c)) s"

definition isWhiteSpace :: "16 word \<Rightarrow> bool" where
  "isWhiteSpace c =
     (c = 0x0009 \<or> c = 0x000A \<or> c = 0x000B \<or> c = 0x000C \<or> c = 0x000D \<or> c = 0x0020
      \<or> c = 0x00A0 \<or> c = 0x1680 \<or> (0x2000 \<le> c \<and> c \<le> 0x200A) \<or> c = 0x2028
      \<or> c = 0x2029 \<or> c = 0x202F \<or> c = 0x205F \<or> c = 0x3000 \<or> c = 0xFEFF)"

definition trim :: "jsstring \<Rightarrow> jsstring" where
  "trim s = rev (dropWhile isWhiteSpace (rev (dropWhile isWhiteSpace s)))"

text \<open>\<open>a || b\<close> on strings: the empty string and \<open>undefined\<close> are falsy.\<close>

definition str_or :: "jsstring \<Rightarrow> jsstring \<Rightarrow> jsstring" where
  "str_or a b = (if a \<noteq> [] then a else b)"

definition opt_str_or :: "jsstring option \<Rightarrow> jsstring \<Rightarrow> jsstring" where
  "opt_str_or a b = (case a of None \<Rightarrow> b | Some v \<Rightarrow> str_or v b)"

section \<open>Data model (types/inventory.ts)\<close>

text \<open>
  Records share one name space for their fields, so the fields of the item records carry
  a prefix: \<open>inv_\<close> for \<open>InventoryItem\<close>, \<open>ord_\<close> for \<open>OrderItem\<close>, \<open>store_\<close> for the
  identity of a \<open>Store\<close>.
\<close>

text \<open>
  The hook updates a stored item with \<open>{ ...item, ...updates }\<close>, where \<open>updates\<close> is a
  \<open>Partial<InventoryItem>\<close> or a \<open>Partial<OrderItem>\<close>: a key that is present with the
  value \<open>undefined\<close> puts \<open>undefined\<close> into the item. A string field of a stored item
  is therefore a string or \<open>undefined\<close> (\<open>None\<close>), and a number field may hold
  \<open>Undefined\<close>. \<open>completedAt\<close> is the optional field of an order that the hook reads
  and writes (\<open>item.completedAt || orderDate\<close>).
\<close>

record InventoryItem =
  inv_id :: "jsstring option"
  inv_photo :: "jsstring option"
  inv_productName :: "jsstring option"
  inv_color :: "jsstring option"
  inv_size :: "jsstring option"
  inv_quantity :: number
  inv_costPriceCNY :: number
  inv_sellingPriceJPY :: number


record OrderItem =
  ord_id :: "jsstring option"
  ord_photo :: "jsstring option"
  ord_productName :: "jsstring option"
  ord_color :: "jsstring option"
  ord_size :: "jsstring option"
  ord_costPriceCNY :: number
  ord_convertedWithShipping :: number
  ord_actualPayment :: number
  ord_profit :: number
  ord_createdAt :: "jsstring option"
  ord_completedAt :: "jsstring option"

record Store =
  store_id :: jsstring
  store_name :: jsstring
  inventory :: "InventoryItem list"
  orders :: "OrderItem list"

record Settings =
  exchangeRate :: number
  internationalShipping :: number
  domesticShipping :: number
  targetProfit :: number
  platformFeeRate :: number

text \<open>The literal \<open>0.22\<close> is the double nearest to 0.22.\<close>

definition defaultSettings :: Settings where
  "defaultSettings =
     \<lparr>exchangeRate = Fin 23, internationalShipping = Fin 1000, domesticShipping = Fin 1000,
      targetProfit = Fin 6000, platformFeeRate = rnd 0.22\<rparr>"

section \<open>Pricing formulas (types/inventory.ts)\<close>

definition calculateSellingPrice :: "number \<Rightarrow> Settings \<Rightarrow> number" where
  "calculateSellingPrice costCNY settings =
     (let baseCost = fmul costCNY (exchangeRate settings);
          totalCost = fadd (fadd (fadd baseCost (internationalShipping settings))
                                 (domesticShipping settings))
                           (targetProfit settings);
          sellingPrice = fdiv totalCost (fsub (Fin 1) (platformFeeRate settings))
      in Math_ceil sellingPrice)"

text \<open>
  The third parameter has the default value 1000, which applies when the argument is left
  out (\<open>None\<close>) or is \<open>undefined\<close>.
\<close>

definition calculateConvertedWithShipping :: "number \<Rightarrow> number \<Rightarrow> number option \<Rightarrow> number" where
  "calculateConvertedWithShipping costCNY rate shippingArg =
     (let shipping =
            (case shippingArg of
               None \<Rightarrow> Fin 1000
             | Some v \<Rightarrow> if v = Undefined then Fin 1000 else v)
      in Math_ceil (fadd (fmul costCNY rate) shipping))"

definition calculateProfit :: "number \<Rightarrow> number \<Rightarrow> number" where
  "calculateProfit actualPayment convertedWithShipping = fsub actualPayment convertedWithShipping"

section \<open>The state of the hook (hooks/useStore.ts)\<close>

text \<open>
  \<open>useStore\<close> keeps three pieces of state: the stores, the id of the active store
  (\<open>string | null\<close>) and the settings. Every callback is a function from the state before
  to the state after. \<open>generateId()\<close> and \<open>new Date().toISOString()\<close> read the clock and
  a random source; their results are parameters of the callbacks that use them.
\<close>

record AppState =
  stores :: "Store list"
  activeStoreId :: "jsstring option"
  settings :: Settings

text \<open>\<open>Omit<InventoryItem, 'id' | 'sellingPriceJPY'>\<close>\<close>

record InventoryItemInput =
  new_photo :: jsstring
  new_productName :: jsstring
  new_color :: jsstring
  new_size :: jsstring
  new_quantity :: number
  new_costPriceCNY :: number

text \<open>\<open>Omit<OrderItem, 'id' | 'convertedWithShipping' | 'profit'>\<close>\<close>

record OrderItemInput =
  in_photo :: jsstring
  in_productName :: jsstring
  in_color :: jsstring
  in_size :: jsstring
  in_costPriceCNY :: number
  in_actualPayment :: number
  in_createdAt :: jsstring
  in_completedAt :: "jsstring option"

text \<open>
  \<open>Partial<OrderItem>\<close> and \<open>Partial<Settings>\<close>: a key is absent, or present with a
  value, and that value may be \<open>undefined\<close> (\<open>Present None\<close> for a string,
  \<open>Present Undefined\<close> for a number).
\<close>

datatype 'a partial = Absent | Present 'a

text \<open>\<open>updates.key !== undefined\<close>, for a key that holds a number.\<close>

definition notUndefined :: "number partial \<Rightarrow> bool" where
  "notUndefined p = (case p of Absent \<Rightarrow> False | Present v \<Rightarrow> v \<noteq> Undefined)"

record OrderItemUpdates =
  upd_id :: "jsstring option partial"
  upd_photo :: "jsstring option partial"
  upd_productName :: "jsstring option partial"
  upd_color :: "jsstring option partial"
  upd_size :: "jsstring option partial"
  upd_costPriceCNY :: "number partial"
  upd_convertedWithShipping :: "number partial"
  upd_actualPayment :: "number partial"
  upd_profit :: "number partial"
  upd_createdAt :: "jsstring option partial"
  upd_completedAt :: "jsstring option partial"

record SettingsUpdates =
  set_exchangeRate :: "number partial"
  set_internationalShipping :: "number partial"
  set_domesticShipping :: "number partial"
  set_targetProfit :: "number partial"
  set_platformFeeRate :: "number partial"

definition noOrderUpdates :: OrderItemUpdates where
  "noOrderUpdates =
     \<lparr>upd_id = Absent, upd_photo = Absent, upd_productName = Absent, upd_color = Absent,
      upd_size = Absent, upd_costPriceCNY = Absent, upd_convertedWithShipping = Absent,
      upd_actualPayment = Absent, upd_profit = Absent, upd_createdAt = Absent,
      upd_completedAt = Absent\<rparr>"

definition noSettingsUpdates :: SettingsUpdates where
  "noSettingsUpdates =
     \<lparr>set_exchangeRate = Absent, set_internationalShipping = Absent,
      set_domesticShipping = Absent, set_targetProfit = Absent,
      set_platformFeeRate = Absent\<rparr>"

text \<open>One key of a spread: the value of the update when the key is present.\<close>

definition spread :: "'a \<Rightarrow> 'a partial \<Rightarrow> 'a" where
  "spread old p = (case p of Absent \<Rightarrow> old | Present v \<Rightarrow> v)"

subsection \<open>Inventory\<close>

text \<open>The local constant \<open>newItem\<close> of \<open>addInventoryItem\<close>.\<close>

definition newInventoryItem :: "jsstring \<Rightarrow> InventoryItemInput \<Rightarrow> Settings \<Rightarrow> InventoryItem" where
  "newInventoryItem newId item sett =
     \<lparr>inv_id = Some newId, inv_photo = Some (new_photo item),
      inv_productName = Some (new_productName item),
      inv_color = Some (new_color item), inv_size = Some (new_size item),
      inv_quantity = new_quantity item, inv_costPriceCNY = new_costPriceCNY item,
      inv_sellingPriceJPY = calculateSellingPrice (new_costPriceCNY item) sett\<rparr>"

definition addInventoryItem :: "jsstring \<Rightarrow> InventoryItemInput \<Rightarrow> AppState \<Rightarrow> AppState" where
  "addInventoryItem newId item st =
     (let newItem = newInventoryItem newId item (settings st)
      in st\<lparr>stores :=
           map (\<lambda>s. if Some (store_id s) = activeStoreId st
                      then s\<lparr>inventory := inventory s @ [newItem]\<rparr>
                      else s) (stores st)\<rparr>)"

subsection \<open>Orders\<close>

text \<open>The local constant \<open>newItem\<close> of \<open>addOrderItem\<close>.\<close>

definition newOrderItem ::
  "jsstring \<Rightarrow> jsstring \<Rightarrow> OrderItemInput \<Rightarrow> jsstring option \<Rightarrow> Settings \<Rightarrow> OrderItem" where
  "newOrderItem newId now item createdAt sett =
     (let convertedWithShipping =
            calculateConvertedWithShipping (in_costPriceCNY item) (exchangeRate sett) None;
          profit = calculateProfit (in_actualPayment item) convertedWithShipping;
          orderDate = opt_str_or createdAt (str_or (in_createdAt item) now)
      in \<lparr>ord_id = Some newId, ord_photo = Some (in_photo item),
          ord_productName = Some (in_productName item),
          ord_color = Some (in_color item), ord_size = Some (in_size item),
          ord_costPriceCNY = in_costPriceCNY item,
          ord_convertedWithShipping = convertedWithShipping,
          ord_actualPayment = in_actualPayment item, ord_profit = profit,
          ord_createdAt = Some orderDate,
          ord_completedAt = Some (opt_str_or (in_completedAt item) orderDate)\<rparr>)"

definition addOrderItem ::
  "jsstring \<Rightarrow> jsstring \<Rightarrow> OrderItemInput \<Rightarrow> jsstring option \<Rightarrow> AppState \<Rightarrow> AppState" where
  "addOrderItem newId now item createdAt st =
     (let newItem = newOrderItem newId now item createdAt (settings st)
      in st\<lparr>stores :=
           map (\<lambda>s. if Some (store_id s) = activeStoreId st
                      then s\<lparr>orders := orders s @ [newItem]\<rparr>
                      else s) (stores st)\<rparr>)"

text \<open>\<open>{ ...item, ...updates }\<close>\<close>

definition spreadOrder :: "OrderItem \<Rightarrow> OrderItemUpdates \<Rightarrow> OrderItem" where
  "spreadOrder item updates =
     \<lparr>ord_id = spread (ord_id item) (upd_id updates),
      ord_photo = spread (ord_photo item) (upd_photo updates),
      ord_productName = spread (ord_productName item) (upd_productName updates),
      ord_color = spread (ord_color item) (upd_color updates),
      ord_size = spread (ord_size item) (upd_size updates),
      ord_costPriceCNY = spread (ord_costPriceCNY item) (upd_costPriceCNY updates),
      ord_convertedWithShipping =
        spread (ord_convertedWithShipping item) (upd_convertedWithShipping updates),
      ord_actualPayment = spread (ord_actualPayment item) (upd_actualPayment updates),
      ord_profit = spread (ord_profit item) (upd_profit updates),
      ord_createdAt = spread (ord_createdAt item) (upd_createdAt updates),
      ord_completedAt = spread (ord_completedAt item) (upd_completedAt updates)\<rparr>"

text \<open>The body of the inner \<open>map\<close> of \<open>updateOrderItem\<close>, for the item whose id matches.\<close>

definition updatedOrder :: "Settings \<Rightarrow> OrderItemUpdates \<Rightarrow> OrderItem \<Rightarrow> OrderItem" where
  "updatedOrder sett updates item =
     (let updated = spreadOrder item updates;
          updated1 =
            (case upd_costPriceCNY updates of
               Absent \<Rightarrow> updated
             | Present c \<Rightarrow>
                 if c \<noteq> Undefined
                 then updated\<lparr>ord_convertedWithShipping :=
                        calculateConvertedWithShipping c (exchangeRate sett) None\<rparr>
                 else updated)
      in if notUndefined (upd_actualPayment updates) \<or> notUndefined (upd_costPriceCNY updates)
         then updated1\<lparr>ord_profit :=
                calculateProfit (ord_actualPayment updated1) (ord_convertedWithShipping updated1)\<rparr>
         else updated1)"

definition updateOrderItem :: "jsstring \<Rightarrow> OrderItemUpdates \<Rightarrow> AppState \<Rightarrow> AppState" where
  "updateOrderItem itemId updates st =
     st\<lparr>stores :=
       map (\<lambda>s. if Some (store_id s) \<noteq> activeStoreId st then s
                 else s\<lparr>orders :=
                        map (\<lambda>item. if ord_id item \<noteq> Some itemId then item
                                     else updatedOrder (settings st) updates item)
                            (orders s)\<rparr>) (stores st)\<rparr>"

subsection \<open>Settings and the recalculation sweep\<close>

text \<open>\<open>{ ...prev, ...newSettings }\<close>\<close>

definition spreadSettings :: "Settings \<Rightarrow> SettingsUpdates \<Rightarrow> Settings" where
  "spreadSettings prev newSettings =
     \<lparr>exchangeRate = spread (exchangeRate prev) (set_exchangeRate newSettings),
      internationalShipping =
        spread (internationalShipping prev) (set_internationalShipping newSettings),
      domesticShipping = spread (domesticShipping prev) (set_domesticShipping newSettings),
      targetProfit = spread (targetProfit prev) (set_targetProfit newSettings),
      platformFeeRate = spread (platformFeeRate prev) (set_platformFeeRate newSettings)\<rparr>"

definition updateSettings :: "SettingsUpdates \<Rightarrow> AppState \<Rightarrow> AppState" where
  "updateSettings newSettings st = st\<lparr>settings := spreadSettings (settings st) newSettings\<rparr>"

definition recalculateAllPrices :: "AppState \<Rightarrow> AppState" where
  "recalculateAllPrices st =
     st\<lparr>stores :=
       map (\<lambda>store.
              store\<lparr>inventory :=
                      map (\<lambda>item. item\<lparr>inv_sellingPriceJPY :=
                                    calculateSellingPrice (inv_costPriceCNY item) (settings st)\<rparr>)
                          (inventory store),
                    orders :=
                      map (\<lambda>order.
                             let convertedWithShipping =
                                   calculateConvertedWithShipping (ord_costPriceCNY order)
                                     (exchangeRate (settings st)) None
                             in order\<lparr>ord_convertedWithShipping := convertedWithShipping,
                                      ord_profit :=
                                        calculateProfit (ord_actualPayment order)
                                          convertedWithShipping\<rparr>)
                          (orders store)\<rparr>)
           (stores st)\<rparr>"

subsection \<open>The form that creates an inventory item (components/AddInventoryDialog.tsx)\<close>

definition emptyItem :: InventoryItemInput where
  "emptyItem =
     \<lparr>new_photo = [], new_productName = [], new_color = [], new_size = [],
      new_quantity = Fin 1, new_costPriceCNY = Fin 0\<rparr>"

text \<open>
  The \<open>onChange\<close> handlers of the quantity and cost fields; the argument is what
  \<open>parseInt(e.target.value)\<close>, respectively \<open>parseFloat(e.target.value)\<close>, returns.
\<close>

definition onChange_quantity :: "number \<Rightarrow> InventoryItemInput \<Rightarrow> InventoryItemInput" where
  "onChange_quantity parsed prev = prev\<lparr>new_quantity := num_or parsed (Fin 1)\<rparr>"

definition onChange_costPrice :: "number \<Rightarrow> InventoryItemInput \<Rightarrow> InventoryItemInput" where
  "onChange_costPrice parsed prev = prev\<lparr>new_costPriceCNY := num_or parsed (Fin 0)\<rparr>"

text \<open>
  \<open>handleSubmit\<close>, with \<open>onAddItem\<close> bound to \<open>addInventoryItem\<close>. The result is the
  form's \<open>newItem\<close> and the state of the hook afterwards; closing the dialog
  (\<open>onOpenChange(false)\<close>) is not part of the model.
\<close>

definition handleSubmit ::
  "jsstring \<Rightarrow> InventoryItemInput \<Rightarrow> AppState \<Rightarrow> InventoryItemInput \<times> AppState" where
  "handleSubmit newId newItem st =
     (if trim (new_productName newItem) \<noteq> [] \<and> gt (new_costPriceCNY newItem) (Fin 0)
      then (emptyItem, addInventoryItem newId newItem st)
      else (newItem, st))"

subsection \<open>The settings form (components/SettingsPanel.tsx)\<close>

datatype SettingsKey =
  K_exchangeRate | K_internationalShipping | K_domesticShipping | K_targetProfit
  | K_platformFeeRate

text \<open>\<open>{ [key]: value }\<close>\<close>

fun singleSetting :: "SettingsKey \<Rightarrow> number \<Rightarrow> SettingsUpdates" where
  "singleSetting K_exchangeRate v = noSettingsUpdates\<lparr>set_exchangeRate := Present v\<rparr>"
| "singleSetting K_internationalShipping v =
     noSettingsUpdates\<lparr>set_internationalShipping := Present v\<rparr>"
| "singleSetting K_domesticShipping v =
     noSettingsUpdates\<lparr>set_domesticShipping := Present v\<rparr>"
| "singleSetting K_targetProfit v = noSettingsUpdates\<lparr>set_targetProfit := Present v\<rparr>"
| "singleSetting K_platformFeeRate v = noSettingsUpdates\<lparr>set_platformFeeRate := Present v\<rparr>"

text \<open>\<open>handleChange\<close>, with \<open>onUpdateSettings\<close> bound to \<open>updateSettings\<close>.\<close>

definition handleChange :: "SettingsKey \<Rightarrow> number \<Rightarrow> AppState \<Rightarrow> AppState" where
  "handleChange key v st = updateSettings (singleSetting key v) st"

text \<open>
  The \<open>onChange\<close> handlers of the fee field (a percentage, divided by 100) and of the
  international shipping field; the argument is the result of \<open>parseFloat\<close>, respectively
  \<open>parseInt\<close>.
\<close>

definition onChange_platformFeeRate :: "number \<Rightarrow> AppState \<Rightarrow> AppState" where
  "onChange_platformFeeRate parsed st =
     handleChange K_platformFeeRate (fdiv (num_or parsed (Fin 0)) (Fin 100)) st"

definition onChange_internationalShipping :: "number \<Rightarrow> AppState \<Rightarrow> AppState" where
  "onChange_internationalShipping parsed st =
     handleChange K_internationalShipping (num_or parsed (Fin 0)) st"

section \<open>Properties the statements speak about\<close>

text \<open>The value of a finite number.\<close>

fun the_real :: "number \<Rightarrow> real" where
  "the_real (Fin x) = x"
| "the_real _ = 0"

text \<open>A number that is not negative: a finite double from 0 on, or \<open>+Infinity\<close>.\<close>

fun nonnegDouble :: "number \<Rightarrow> bool" where
  "nonnegDouble (Fin x) = (0 \<le> x \<and> isDouble x)"
| "nonnegDouble PosInf = True"
| "nonnegDouble _ = False"

text \<open>
  The settings the data model calls valid: a platform fee rate in [0,1) and shipping
  costs and target profit that are not negative.
\<close>

definition validSettings :: "Settings \<Rightarrow> bool" where
  "validSettings s =
     (le (Fin 0) (platformFeeRate s) \<and> lt (platformFeeRate s) (Fin 1)
      \<and> le (Fin 0) (internationalShipping s) \<and> le (Fin 0) (domesticShipping s)
      \<and> le (Fin 0) (targetProfit s))"

text \<open>
  The consistency of an order's derived fields, and of all orders of all stores: the
  stored profit is the value of \<open>actualPayment - convertedWithShipping\<close>.
\<close>

definition orderConsistent :: "OrderItem \<Rightarrow> bool" where
  "orderConsistent order =
     (ord_profit order = fsub (ord_actualPayment order) (ord_convertedWithShipping order))"

definition ordersConsistent :: "AppState \<Rightarrow> bool" where
  "ordersConsistent st = list_all (\<lambda>s. list_all orderConsistent (orders s)) (stores st)"

text \<open>
  An update of an order that carries attribute fields only: neither the id nor a derived
  field.
\<close>

definition attributeUpdate :: "OrderItemUpdates \<Rightarrow> bool" where
  "attributeUpdate updates =
     (upd_id updates = Absent \<and> upd_convertedWithShipping updates = Absent
      \<and> upd_profit updates = Absent)"

text \<open>Two items that agree on every field but the derived ones.\<close>

definition sameInventoryAttributes :: "InventoryItem \<Rightarrow> InventoryItem \<Rightarrow> bool" where
  "sameInventoryAttributes a b =
     (inv_id a = inv_id b \<and> inv_photo a = inv_photo b
      \<and> inv_productName a = inv_productName b \<and> inv_color a = inv_color b
      \<and> inv_size a = inv_size b \<and> inv_quantity a = inv_quantity b
      \<and> inv_costPriceCNY a = inv_costPriceCNY b)"

definition sameOrderAttributes :: "OrderItem \<Rightarrow> OrderItem \<Rightarrow> bool" where
  "sameOrderAttributes a b =
     (ord_id a = ord_id b \<and> ord_photo a = ord_photo b
      \<and> ord_productName a = ord_productName b \<and> ord_color a = ord_color b
      \<and> ord_size a = ord_size b \<and> ord_costPriceCNY a = ord_costPriceCNY b
      \<and> ord_actualPayment a = ord_actualPayment b \<and> ord_createdAt a = ord_createdAt b
      \<and> ord_completedAt a = ord_completedAt b)"

section \<open>Example data\<close>

text \<open>
  One store with one inventory item and one order, whose derived fields were computed
  at the exchange rate 23, in a state whose settings now have the rate 25.
\<close>

definition exampleInventoryItem :: InventoryItem where
  "exampleInventoryItem =
     \<lparr>inv_id = Some (utf16 ''i1''), inv_photo = Some [],
      inv_productName = Some (utf16 ''coat''), inv_color = Some (utf16 ''red''),
      inv_size = Some (utf16 ''M''), inv_quantity = Fin 2,
      inv_costPriceCNY = Fin 100, inv_sellingPriceJPY = Fin 13206\<rparr>"

definition exampleOrder :: OrderItem where
  "exampleOrder =
     \<lparr>ord_id = Some (utf16 ''o1''), ord_photo = Some [],
      ord_productName = Some (utf16 ''coat''), ord_color = Some (utf16 ''red''),
      ord_size = Some (utf16 ''M''), ord_costPriceCNY = Fin 50,
      ord_convertedWithShipping = Fin 2150, ord_actualPayment = Fin 3000,
      ord_profit = Fin 850, ord_createdAt = Some (utf16 ''2026-01-15''),
      ord_completedAt = Some (utf16 ''2026-01-20'')\<rparr>"

definition exampleStore :: Store where
  "exampleStore =
     \<lparr>store_id = utf16 ''s1'', store_name = utf16 ''shop'',
      inventory = [exampleInventoryItem], orders = [exampleOrder]\<rparr>"

definition exampleState :: AppState where
  "exampleState =
     \<lparr>stores = [exampleStore], activeStoreId = Some (utf16 ''s1''),
      settings = defaultSettings\<lparr>exchangeRate := Fin 25\<rparr>\<rparr>"

definition exampleOrderInput :: OrderItemInput where
  "exampleOrderInput =
     \<lparr>in_photo = [], in_productName = utf16 ''hat'', in_color = utf16 ''blue'',
      in_size = utf16 ''S'', in_costPriceCNY = Fin 50, in_actualPayment = Fin 3000,
      in_createdAt = [], in_completedAt = None\<rparr>"

definition exampleInventoryInput :: InventoryItemInput where
  "exampleInventoryInput =
     \<lparr>new_photo = [], new_productName = utf16 ''hat'', new_color = utf16 ''blue'',
      new_size = utf16 ''S'', new_quantity = Fin 1, new_costPriceCNY = Fin 5\<rparr>"

section \<open>Rounding to the nearest double\<close>

subsection \<open>The binary exponent\<close>

lemma expo_bounds_ge1:
  assumes "1 \<le> \<bar>x\<bar>"
  shows "2 powi expo x \<le> \<bar>x\<bar>" "\<bar>x\<bar> < 2 powi (expo x + 1)"
proof -
  let ?n = "\<lfloor>\<bar>x\<bar>\<rfloor>"
  have n: "0 < ?n" using assms by simp
  from bitlen_bounds[OF n] have b: "2 ^ nat (bitlen ?n - 1) \<le> ?n" "?n < 2 ^ nat (bitlen ?n)"
    by auto
  have bl: "1 \<le> bitlen ?n" using n by (simp add: bitlen_alt_def)
  have e: "expo x = bitlen ?n - 1" using assms by (simp add: expo_def)
  have "(2::real) powi expo x = 2 ^ nat (bitlen ?n - 1)"
    using bl by (simp add: e power_int_def)
  also have "\<dots> = of_int (2 ^ nat (bitlen ?n - 1))" by simp
  also have "\<dots> \<le> of_int ?n" using b(1) by (simp only: of_int_le_iff)
  also have "\<dots> \<le> \<bar>x\<bar>" by simp
  finally show "2 powi expo x \<le> \<bar>x\<bar>" .
  have "?n + 1 \<le> 2 ^ nat (bitlen ?n)" using b(2) by simp
  then have "of_int (?n + 1) \<le> (of_int (2 ^ nat (bitlen ?n)) :: real)"
    by (simp only: of_int_le_iff)
  then have "of_int ?n + 1 \<le> (2 ^ nat (bitlen ?n) :: real)" by simp
  moreover have "\<bar>x\<bar> < of_int ?n + 1" by linarith
  ultimately have "\<bar>x\<bar> < 2 ^ nat (bitlen ?n)" by linarith
  moreover have "(2::real) powi (expo x + 1) = 2 ^ nat (bitlen ?n)"
    using bl by (simp add: e power_int_def)
  ultimately show "\<bar>x\<bar> < 2 powi (expo x + 1)" by simp
qed

lemma expo_bounds_lt1:
  assumes "x \<noteq> 0" "\<bar>x\<bar> < 1"
  shows "2 powi expo x \<le> \<bar>x\<bar>" "\<bar>x\<bar> < 2 powi (expo x + 1)"
proof -
  let ?m = "\<lceil>1 / \<bar>x\<bar>\<rceil>"
  let ?k = "bitlen (?m - 1)"
  have pos: "0 < \<bar>x\<bar>" using assms by simp
  have inv: "1 < 1 / \<bar>x\<bar>" using assms pos by (simp add: field_simps)
  then have m: "2 \<le> ?m" by linarith
  then have n: "0 < ?m - 1" by simp
  from bitlen_bounds[OF n] have b: "2 ^ nat (?k - 1) \<le> ?m - 1" "?m - 1 < 2 ^ nat ?k"
    by auto
  have bl: "1 \<le> ?k" using n by (simp add: bitlen_alt_def)
  have e: "expo x = - ?k" using assms by (simp add: expo_def)
  have "?m \<le> 2 ^ nat ?k" using b(2) by simp
  then have "of_int ?m \<le> (of_int (2 ^ nat ?k) :: real)" by (simp only: of_int_le_iff)
  then have "of_int ?m \<le> (2 ^ nat ?k :: real)" by simp
  moreover have "1 / \<bar>x\<bar> \<le> of_int ?m" by (rule le_of_int_ceiling)
  ultimately have "1 / \<bar>x\<bar> \<le> 2 ^ nat ?k" by linarith
  then have "1 / 2 ^ nat ?k \<le> \<bar>x\<bar>"
    using pos by (simp add: field_simps)
  moreover have "(2::real) powi expo x = 1 / 2 ^ nat ?k"
    using bl by (simp add: e power_int_def field_simps)
  ultimately show "2 powi expo x \<le> \<bar>x\<bar>" by simp
  have "(of_int (2 ^ nat (?k - 1)) :: real) \<le> of_int (?m - 1)"
    using b(1) by (simp only: of_int_le_iff)
  then have "(2 ^ nat (?k - 1) :: real) \<le> of_int ?m - 1" by simp
  moreover have "of_int ?m - 1 < 1 / \<bar>x\<bar>" by linarith
  ultimately have "2 ^ nat (?k - 1) < 1 / \<bar>x\<bar>" by linarith
  then have "\<bar>x\<bar> < 1 / 2 ^ nat (?k - 1)"
    using pos by (simp add: field_simps)
  moreover have "(2::real) powi (expo x + 1) = 1 / 2 ^ nat (?k - 1)"
  proof -
    have "expo x + 1 = - (?k - 1)" by (simp add: e)
    then have "(2::real) powi (expo x + 1) = 2 powi (- (?k - 1))" by simp
    also have "\<dots> = 1 / 2 powi (?k - 1)" by (rule power_int_minus_divide)
    also have "\<dots> = 1 / 2 ^ nat (?k - 1)" using bl by (simp add: power_int_def)
    finally show ?thesis .
  qed
  ultimately show "\<bar>x\<bar> < 2 powi (expo x + 1)" by simp
qed

lemma expo_bounds:
  assumes "x \<noteq> 0"
  shows "2 powi expo x \<le> \<bar>x\<bar>" "\<bar>x\<bar> < 2 powi (expo x + 1)"
  using expo_bounds_ge1[of x] expo_bounds_lt1[of x] assms
  by (cases "1 \<le> \<bar>x\<bar>"; simp)+

lemma pow2_less_iff: "(2::real) powi a < 2 powi b \<longleftrightarrow> a < b"
proof
  assume l: "(2::real) powi a < 2 powi b"
  show "a < b"
  proof (rule ccontr)
    assume "\<not> a < b"
    then have "b \<le> a" by simp
    then have "(2::real) powi b \<le> 2 powi a" by (intro power_int_increasing) simp_all
    with l show False by simp
  qed
next
  assume "a < b"
  then show "(2::real) powi a < 2 powi b" by (intro power_int_strict_increasing) simp_all
qed

lemma pow2_le_iff: "(2::real) powi a \<le> 2 powi b \<longleftrightarrow> a \<le> b"
  by (metis linorder_not_less pow2_less_iff)

lemma expo_unique:
  assumes "2 powi e \<le> \<bar>x\<bar>" "\<bar>x\<bar> < 2 powi (e + 1)"
  shows "expo x = e"
proof -
  have "0 < (2::real) powi e" by simp
  with assms(1) have "0 < \<bar>x\<bar>" by linarith
  then have nz: "x \<noteq> 0" by auto
  note b = expo_bounds[OF nz]
  have "2 powi e < (2::real) powi (expo x + 1)" using assms(1) b(2) by linarith
  then have "e < expo x + 1" by (simp add: pow2_less_iff)
  moreover have "2 powi expo x < (2::real) powi (e + 1)" using assms(2) b(1) by linarith
  then have "expo x < e + 1" by (simp add: pow2_less_iff)
  ultimately show ?thesis by simp
qed

lemma expo_mono_pos:
  assumes "0 < \<bar>x\<bar>" "\<bar>x\<bar> \<le> \<bar>y\<bar>"
  shows "expo x \<le> expo y"
proof -
  have nz: "x \<noteq> 0" "y \<noteq> 0" using assms by auto
  have "2 powi expo x \<le> \<bar>x\<bar>" using expo_bounds(1)[OF nz(1)] .
  also have "\<dots> \<le> \<bar>y\<bar>" by fact
  also have "\<dots> < 2 powi (expo y + 1)" using expo_bounds(2)[OF nz(2)] .
  finally show ?thesis by (simp add: pow2_less_iff)
qed

lemma expo_minus [simp]: "expo (- x) = expo x"
  by (simp add: expo_def)


subsection \<open>Rounding to the nearest integer, ties to even\<close>

lemma round_even_of_int [simp]: "round_even (of_int n) = n"
  by (simp add: round_even_def)

lemma round_even_0 [simp]: "round_even 0 = 0"
  by (simp add: round_even_def)

lemma round_even_bounds: "of_int (round_even y) - 1 / 2 \<le> y" "y \<le> of_int (round_even y) + 1 / 2"
  unfolding round_even_def Let_def by (auto; linarith)+

lemma round_even_mono:
  assumes "a \<le> b"
  shows "round_even a \<le> round_even b"
proof (cases "\<lfloor>a\<rfloor> = \<lfloor>b\<rfloor>")
  case True
  with assms show ?thesis
    unfolding round_even_def Let_def by auto
next
  case False
  with assms have "\<lfloor>a\<rfloor> < \<lfloor>b\<rfloor>"
    by (meson floor_mono le_less)
  then have "\<lfloor>a\<rfloor> + 1 \<le> \<lfloor>b\<rfloor>" by simp
  moreover have "round_even a \<le> \<lfloor>a\<rfloor> + 1"
    unfolding round_even_def Let_def by auto
  moreover have "\<lfloor>b\<rfloor> \<le> round_even b"
    unfolding round_even_def Let_def by auto
  ultimately show ?thesis by linarith
qed

lemma round_even_minus: "round_even (- y) = - round_even y"
proof (cases "y \<in> \<int>")
  case True
  then obtain n :: int where "y = of_int n" by (auto elim: Ints_cases)
  then have "- y = of_int (- n)" by simp
  then show ?thesis using \<open>y = of_int n\<close> by (simp only: round_even_of_int)
next
  case False
  then have "y \<noteq> of_int \<lfloor>y\<rfloor>"
    by (metis Ints_of_int)
  then have fm: "\<lfloor>- y\<rfloor> = - \<lfloor>y\<rfloor> - 1"
    by (simp add: ceiling_altdef floor_minus)
  have r: "- y - of_int \<lfloor>- y\<rfloor> = 1 - (y - of_int \<lfloor>y\<rfloor>)"
    by (simp add: fm)
  show ?thesis
    unfolding round_even_def Let_def r
    by (auto simp add: fm)
qed

lemma round_even_nonneg: "0 \<le> y \<Longrightarrow> 0 \<le> round_even y"
  using round_even_mono[of 0 y] round_even_of_int[of 0] by simp


subsection \<open>Rounding to the grid of doubles\<close>

lemma quantum_minus [simp]: "quantum (- x) = quantum x"
  by (simp add: quantum_def)

lemma fl_minus: "fl (- x) = - fl x"
  by (simp add: fl_def round_even_minus)

lemma fl_0 [simp]: "fl 0 = 0"
  by (simp add: fl_def)

lemma fl_nonneg: "0 \<le> x \<Longrightarrow> 0 \<le> fl x"
  by (simp add: fl_def round_even_nonneg)

lemma grid_mono:
  assumes "x \<le> y"
  shows "of_int (round_even (x / 2 powi q)) * 2 powi q
    \<le> (of_int (round_even (y / 2 powi q)) * 2 powi q :: real)"
proof -
  have "x / 2 powi q \<le> y / 2 powi q"
    using assms by (intro divide_right_mono) simp_all
  then have "round_even (x / 2 powi q) \<le> round_even (y / 2 powi q)"
    by (rule round_even_mono)
  then show ?thesis
    by (intro mult_right_mono) simp_all
qed

lemma grid_pow2:
  assumes "q \<le> e"
  shows "of_int (round_even (2 powi e / 2 powi q)) * 2 powi q = (2 powi e :: real)"
proof -
  have "(2::real) powi e / 2 powi q = 2 powi (e - q)"
    by (simp add: power_int_diff)
  also have "\<dots> = of_int (2 ^ nat (e - q))"
    using assms by (simp add: power_int_def)
  finally have "round_even (2 powi e / 2 powi q) = 2 ^ nat (e - q)"
    by (simp only: round_even_of_int)
  then have "of_int (round_even (2 powi e / 2 powi q)) * 2 powi q
      = (2 powi (e - q) * 2 powi q :: real)"
    using assms by (simp add: power_int_def)
  also have "\<dots> = 2 powi e"
    by (simp flip: power_int_add)
  finally show ?thesis .
qed

lemma fl_lower:
  assumes "0 < x" "quantum x \<le> expo x"
  shows "2 powi expo x \<le> fl x"
proof -
  have "2 powi expo x \<le> x"
    using expo_bounds(1)[of x] assms(1) by simp
  from grid_mono[OF this, of "quantum x"] grid_pow2[OF assms(2)]
  show ?thesis by (simp add: fl_def)
qed

lemma fl_upper:
  assumes "0 < x"
  shows "fl x \<le> 2 powi (expo x + 1)"
proof (cases "quantum x \<le> expo x + 1")
  case True
  have "x \<le> 2 powi (expo x + 1)"
    using expo_bounds(2)[of x] assms by simp
  from grid_mono[OF this, of "quantum x"] grid_pow2[OF True]
  show ?thesis by (simp add: fl_def)
next
  case False
  then have "expo x + 1 \<le> quantum x - 1" by simp
  then have "(2::real) powi (expo x + 1) \<le> 2 powi (quantum x - 1)"
    by (simp add: pow2_le_iff)
  moreover have "x < 2 powi (expo x + 1)"
    using expo_bounds(2)[of x] assms by simp
  moreover have "(2::real) powi (quantum x - 1) = 2 powi quantum x / 2"
    by (simp add: power_int_diff)
  ultimately have "x < 2 powi quantum x / 2" by linarith
  then have h: "x / 2 powi quantum x < 1 / 2"
    by (simp add: field_simps)
  moreover have "0 \<le> x / 2 powi quantum x"
    using assms by simp
  ultimately have "\<lfloor>x / 2 powi quantum x\<rfloor> = 0"
    by linarith
  with h have "round_even (x / 2 powi quantum x) = 0"
    by (simp add: round_even_def)
  then show ?thesis by (simp add: fl_def)
qed

lemma quantum_mono_pos:
  assumes "0 < x" "x \<le> y"
  shows "quantum x \<le> quantum y"
  using expo_mono_pos[of x y] assms by (simp add: quantum_def)

lemma fl_mono_pos:
  assumes "0 < x" "x \<le> y"
  shows "fl x \<le> fl y"
proof (cases "quantum x = quantum y")
  case True
  with grid_mono[OF assms(2), of "quantum y"] show ?thesis
    by (simp add: fl_def)
next
  case False
  with quantum_mono_pos[OF assms] have lt: "quantum x < quantum y" by simp
  have ypos: "0 < y" using assms by simp
  have qy: "quantum y = expo y - 52"
    using lt by (simp add: quantum_def max_def split: if_splits)
  have "expo x - 52 \<le> quantum x" by (simp add: quantum_def)
  with lt qy have e: "expo x + 1 \<le> expo y" by simp
  have "fl x \<le> 2 powi (expo x + 1)" using fl_upper[OF assms(1)] .
  also have "\<dots> \<le> 2 powi expo y" using e by (simp add: pow2_le_iff)
  also have "\<dots> \<le> fl y" using fl_lower[OF ypos] qy by simp
  finally show ?thesis .
qed

lemma fl_mono:
  assumes "x \<le> y"
  shows "fl x \<le> fl y"
proof -
  consider "0 < x" | "x \<le> 0" "0 \<le> y" | "y < 0" by linarith
  then show ?thesis
  proof cases
    case 1
    then show ?thesis using assms by (rule fl_mono_pos)
  next
    case 2
    have "fl x = - fl (- x)" by (simp add: fl_minus)
    moreover have "0 \<le> fl (- x)" using 2 by (intro fl_nonneg) simp
    moreover have "0 \<le> fl y" using 2 by (intro fl_nonneg)
    ultimately show ?thesis by linarith
  next
    case 3
    then have "fl (- y) \<le> fl (- x)" using assms by (intro fl_mono_pos) simp_all
    then show ?thesis by (simp add: fl_minus)
  qed
qed


lemma fl_fix:
  assumes "y = of_int m * 2 powi q0" "quantum y \<le> q0"
  shows "fl y = y"
proof -
  have "y / 2 powi quantum y = of_int m * (2 powi q0 / 2 powi quantum y)"
    by (simp add: assms(1))
  also have "2 powi q0 / 2 powi quantum y = (2::real) powi (q0 - quantum y)"
    by (simp add: power_int_diff)
  also have "\<dots> = of_int (2 ^ nat (q0 - quantum y))"
    using assms(2) by (simp add: power_int_def)
  finally have "y / 2 powi quantum y = of_int (m * 2 ^ nat (q0 - quantum y))"
    by simp
  then have "round_even (y / 2 powi quantum y) = m * 2 ^ nat (q0 - quantum y)"
    by (simp only: round_even_of_int)
  then have "fl y = of_int m * (2 powi (q0 - quantum y) * 2 powi quantum y)"
    using assms(2) by (simp add: fl_def power_int_def)
  also have "2 powi (q0 - quantum y) * 2 powi quantum y = (2::real) powi q0"
    by (simp flip: power_int_add)
  finally show ?thesis by (simp add: assms(1))
qed

lemma expo_pow2 [simp]: "expo (2 powi e) = e"
  by (rule expo_unique) (simp_all add: pow2_less_iff)

lemma fl_idem_pos:
  assumes "0 < x"
  shows "fl (fl x) = fl x"
proof (cases "fl x = 0")
  case True
  then show ?thesis by simp
next
  case False
  with fl_nonneg[of x] assms have ypos: "0 < fl x" by simp
  define n where "n = round_even (x / 2 powi quantum x)"
  have y: "fl x = of_int n * 2 powi quantum x"
    by (simp add: fl_def n_def)
  show ?thesis
  proof (cases "quantum x \<le> expo x")
    case True
    have lo: "2 powi expo x \<le> fl x" using fl_lower[OF assms True] .
    have hi: "fl x \<le> 2 powi (expo x + 1)" using fl_upper[OF assms] .
    show ?thesis
    proof (cases "fl x < 2 powi (expo x + 1)")
      case True
      with lo ypos have "expo (fl x) = expo x"
        by (intro expo_unique) simp_all
      then have "quantum (fl x) = quantum x"
        by (simp add: quantum_def)
      with y show ?thesis
        by (intro fl_fix[where m = n and ?q0.0 = "quantum x"]) simp_all
    next
      case False
      with hi have eq: "fl x = 2 powi (expo x + 1)" by simp
      then have "expo (fl x) = expo x + 1" by simp
      then have "quantum (fl x) \<le> expo x + 1"
        using True by (simp add: quantum_def)
      then show ?thesis
        by (intro fl_fix[where m = 1 and ?q0.0 = "expo x + 1"]) (simp_all add: eq)
    qed
  next
    case False
    then have q: "quantum x = emin"
      by (simp add: quantum_def max_def split: if_splits)
    have "x < 2 powi (expo x + 1)"
      using expo_bounds(2)[of x] assms by simp
    also have "\<dots> \<le> 2 powi quantum x"
      using False by (simp add: pow2_le_iff)
    finally have "x / 2 powi quantum x \<le> 1"
      by (simp add: field_simps)
    then have "n \<le> round_even 1"
      unfolding n_def by (rule round_even_mono)
    then have "n \<le> 1"
      using round_even_of_int[of 1] by simp
    moreover have "0 < n"
    proof -
      have "0 < of_int n * (2::real) powi quantum x" using ypos y by simp
      then have "0 < (of_int n :: real)"
        by (rule zero_less_mult_pos2) simp
      then show ?thesis by simp
    qed
    ultimately have "n = 1" by simp
    with y q have eq: "fl x = 2 powi emin" by simp
    then have "quantum (fl x) \<le> emin"
      by (simp add: quantum_def)
    then show ?thesis
      by (intro fl_fix[where m = 1 and ?q0.0 = emin]) (simp_all add: eq)
  qed
qed

lemma fl_idem [simp]: "fl (fl x) = fl x"
proof -
  consider "0 < x" | "x = 0" | "x < 0" by linarith
  then show ?thesis
  proof cases
    case 1
    then show ?thesis by (rule fl_idem_pos)
  next
    case 2
    then show ?thesis by simp
  next
    case 3
    then have "fl (fl (- x)) = fl (- x)" by (intro fl_idem_pos) simp
    then show ?thesis by (simp add: fl_minus)
  qed
qed

lemma fl_pos:
  assumes "2 powi emin \<le> x"
  shows "0 < fl x"
proof -
  have xpos: "0 < x"
    using assms zero_less_power_int[of "2::real" emin] by linarith
  have "expo (2 powi emin :: real) \<le> expo x"
    using assms xpos by (intro expo_mono_pos) simp_all
  then have "quantum x \<le> expo x"
    by (simp add: quantum_def)
  from fl_lower[OF xpos this] zero_less_power_int[of "2::real" "expo x"]
  show ?thesis by linarith
qed

lemma pow2_nonneg_int: "0 \<le> e \<Longrightarrow> (2::real) powi e = of_int (2 ^ nat e)"
  by (simp add: power_int_def)

lemma double_multiple:
  assumes "fl f = f"
  shows "\<exists>k::int. f = of_int k * 2 powi emin"
proof -
  define n where "n = round_even (f / 2 powi quantum f)"
  have q: "0 \<le> quantum f - emin" by (simp add: quantum_def)
  have "f = of_int n * 2 powi quantum f"
    using assms by (simp add: fl_def n_def)
  also have "(2::real) powi quantum f = 2 powi (quantum f - emin) * 2 powi emin"
    by (simp flip: power_int_add)
  also have "(2::real) powi (quantum f - emin) = of_int (2 ^ nat (quantum f - emin))"
    using q by (rule pow2_nonneg_int)
  finally have "f = of_int (n * 2 ^ nat (quantum f - emin)) * 2 powi emin"
    by simp
  then show ?thesis ..
qed

lemma one_minus_double_pos:
  assumes "fl f = f" "f < 1"
  shows "0 < fl (1 - f)"
proof -
  obtain k :: int where k: "f = of_int k * 2 powi emin"
    using double_multiple[OF assms(1)] by blast
  have "0 \<le> - emin" by (simp add: emin_def)
  then have "(2::real) powi (- emin) = of_int (2 ^ nat (- emin))"
    by (rule pow2_nonneg_int)
  moreover have "(2::real) powi (- emin) * 2 powi emin = 1"
    by (simp flip: power_int_add)
  ultimately have one: "(1::real) = of_int (2 ^ nat (- emin)) * 2 powi emin"
    by simp
  have "1 - f = of_int (2 ^ nat (- emin)) * 2 powi emin - of_int k * 2 powi emin"
    using one k by simp
  then have d: "1 - f = of_int (2 ^ nat (- emin) - k) * 2 powi emin"
    by (simp add: algebra_simps)
  with assms(2) have "0 < of_int (2 ^ nat (- emin) - k) * (2::real) powi emin"
    by simp
  then have "0 < (of_int (2 ^ nat (- emin) - k) :: real)"
    by (rule zero_less_mult_pos2) simp
  then have "1 \<le> 2 ^ nat (- emin) - k" by linarith
  then have "(1::real) \<le> of_int (2 ^ nat (- emin) - k)"
    by (simp only: of_int_1_le_iff)
  then have "1 * (2::real) powi emin \<le> of_int (2 ^ nat (- emin) - k) * 2 powi emin"
    by (intro mult_right_mono) simp_all
  with d have "2 powi emin \<le> 1 - f" by simp
  then show ?thesis by (rule fl_pos)
qed


subsection \<open>The result of an operation\<close>

lemma expo_0 [simp]: "expo 0 = 0"
  by (simp add: expo_def bitlen_eq_zero_iff)

lemma expo_1 [simp]: "expo 1 = 0"
  using expo_pow2[of 0] by simp

lemma fl_1 [simp]: "fl 1 = 1"
  by (rule fl_fix[where m = 1 and ?q0.0 = 0]) (simp_all add: quantum_def emin_def)

lemma rnd_cases: "rnd x = Fin (fl x) \<and> expo (fl x) < 1024 \<or> rnd x = PosInf \<or> rnd x = NegInf"
  by (simp add: rnd_def Let_def)

lemma rnd_exact: "isDouble x \<Longrightarrow> rnd x = Fin x"
  by (simp add: rnd_def isDouble_def)

lemma rnd_Fin_isDouble: "rnd x = Fin y \<Longrightarrow> isDouble y"
  by (auto simp add: rnd_def isDouble_def Let_def split: if_splits)

lemma rnd_1 [simp]: "rnd 1 = Fin 1"
  by (rule rnd_exact) (simp add: isDouble_def)

lemma le_rnd_PosInf [simp]: "le (rnd x) PosInf"
  using rnd_cases[of x] by auto

lemma le_NegInf_rnd [simp]: "le NegInf (rnd x)"
  using rnd_cases[of x] by auto

lemma rnd_mono:
  assumes "x \<le> y"
  shows "le (rnd x) (rnd y)"
proof -
  have m: "fl x \<le> fl y" using assms by (rule fl_mono)
  show ?thesis
  proof (cases "1024 \<le> expo (fl x)")
    case True
    then have nz: "fl x \<noteq> 0" by auto
    show ?thesis
    proof (cases "0 < fl x")
      case True
      with m have "\<bar>fl x\<bar> \<le> \<bar>fl y\<bar>" "0 < \<bar>fl x\<bar>" by simp_all
      then have "expo (fl x) \<le> expo (fl y)" by (intro expo_mono_pos)
      with \<open>1024 \<le> expo (fl x)\<close> True m show ?thesis
        by (simp add: rnd_def Let_def)
    next
      case False
      with \<open>1024 \<le> expo (fl x)\<close> have "rnd x = NegInf"
        by (simp add: rnd_def Let_def)
      then show ?thesis by simp
    qed
  next
    case False
    then have x: "rnd x = Fin (fl x)" by (simp add: rnd_def Let_def)
    show ?thesis
    proof (cases "1024 \<le> expo (fl y)")
      case True
      then have nz: "fl y \<noteq> 0" by auto
      show ?thesis
      proof (cases "0 < fl y")
        case True
        with \<open>1024 \<le> expo (fl y)\<close> show ?thesis
          by (simp add: x) (simp add: rnd_def Let_def)
      next
        case False
        with nz have "fl y < 0" by simp
        with m have "\<bar>fl y\<bar> \<le> \<bar>fl x\<bar>" "0 < \<bar>fl y\<bar>" by simp_all
        then have "expo (fl y) \<le> expo (fl x)" by (intro expo_mono_pos)
        with True \<open>\<not> 1024 \<le> expo (fl x)\<close> show ?thesis by simp
      qed
    next
      case False
      with m show ?thesis by (simp add: x) (simp add: rnd_def Let_def)
    qed
  qed
qed

lemma le_trans: "le a b \<Longrightarrow> le b c \<Longrightarrow> le a c"
  by (cases a; cases b; cases c) simp_all




lemma nonnegDouble_rnd: "0 \<le> x \<Longrightarrow> nonnegDouble (rnd x)"
proof -
  assume x: "0 \<le> x"
  then have f: "0 \<le> fl x" by (rule fl_nonneg)
  show ?thesis
  proof (cases "1024 \<le> expo (fl x)")
    case True
    then have "fl x \<noteq> 0" by auto
    with f True show ?thesis by (simp add: rnd_def Let_def)
  next
    case False
    with f show ?thesis by (simp add: rnd_def Let_def isDouble_def)
  qed
qed

lemma fadd_nonneg:
  assumes "nonnegDouble a" "0 \<le> i"
  shows "nonnegDouble (fadd a (Fin i))" "le a (fadd a (Fin i))"
proof -
  show "nonnegDouble (fadd a (Fin i))"
    using assms by (cases a) (simp_all add: nonnegDouble_rnd)
  show "le a (fadd a (Fin i))"
  proof (cases a)
    case (Fin x)
    with assms have "rnd x = Fin x" by (simp add: rnd_exact)
    moreover have "le (rnd x) (rnd (x + i))" using assms(2) by (intro rnd_mono) simp
    ultimately show ?thesis using Fin by simp
  qed (use assms in simp_all)
qed

lemma fdiv_nonneg:
  assumes "nonnegDouble a" "0 < d" "d \<le> 1"
  shows "nonnegDouble (fdiv a (Fin d))" "le a (fdiv a (Fin d))"
proof -
  show "nonnegDouble (fdiv a (Fin d))"
    using assms by (cases a) (simp_all add: nonnegDouble_rnd)
  show "le a (fdiv a (Fin d))"
  proof (cases a)
    case (Fin x)
    with assms have x: "0 \<le> x" "rnd x = Fin x" by (simp_all add: rnd_exact)
    have "x * d \<le> x * 1" using x(1) assms(3) by (intro mult_left_mono) simp_all
    then have "x \<le> x / d" using assms(2) by (simp add: pos_le_divide_eq)
    then have "le (rnd x) (rnd (x / d))" by (rule rnd_mono)
    with x Fin assms(2) show ?thesis by simp
  qed (use assms in simp_all)
qed

lemma Math_ceil_nonneg: "nonnegDouble a \<Longrightarrow> le a (Math_ceil a)"
  by (cases a) simp_all

lemma fee_denominator:
  assumes "isDouble f" "0 \<le> f" "f < 1"
  shows "\<exists>d. fsub (Fin 1) (Fin f) = Fin d \<and> 0 < d \<and> d \<le> 1"
proof -
  have pos: "0 < fl (1 - f)"
    using assms by (intro one_minus_double_pos) (simp_all add: isDouble_def)
  have "fl (1 - f) \<le> fl 1" using assms(2) by (intro fl_mono) simp
  then have le1: "fl (1 - f) \<le> 1" by simp
  with pos have "expo (fl (1 - f)) \<le> expo 1"
    by (intro expo_mono_pos) simp_all
  then have "rnd (1 - f) = Fin (fl (1 - f))"
    by (simp add: rnd_def Let_def)
  with pos le1 show ?thesis by simp
qed

lemma fdiv_one_rnd: "fdiv (rnd z) (Fin 1) = rnd z"
proof -
  consider y where "rnd z = Fin y" | "rnd z = PosInf" | "rnd z = NegInf"
    using rnd_cases[of z] by blast
  then show ?thesis
  proof cases
    case 1
    then have "rnd y = Fin y" by (intro rnd_exact rnd_Fin_isDouble)
    with 1 show ?thesis by simp
  qed simp_all
qed

lemma fdiv_one_fadd: "fdiv (fadd a b) (Fin 1) = fadd a b"
  by (cases a; cases b) (simp_all add: fdiv_one_rnd)

lemma isDouble_of_int:
  assumes "\<bar>n\<bar> < 2 ^ 53"
  shows "isDouble (of_int n)"
proof (cases "n = 0")
  case True
  then show ?thesis by (simp add: isDouble_def)
next
  case False
  let ?x = "of_int n :: real"
  have nz: "?x \<noteq> 0" using False by simp
  have "\<bar>?x\<bar> < of_int (2 ^ 53)"
    using assms by (simp only: of_int_abs [symmetric] of_int_less_iff)
  then have "\<bar>?x\<bar> < 2 powi 53" by simp
  with expo_bounds(1)[OF nz] have "(2::real) powi expo ?x < 2 powi 53" by linarith
  then have e: "expo ?x < 53" by (simp only: pow2_less_iff)
  then have "quantum ?x \<le> 0" by (simp add: quantum_def emin_def)
  then have "fl ?x = ?x"
    by (intro fl_fix[where m = n and ?q0.0 = 0]) simp_all
  with e show ?thesis by (simp add: isDouble_def)
qed

lemma isDouble_numeral:
  "(numeral k :: int) < 2 ^ 53 \<Longrightarrow> isDouble (numeral k)"
  "(numeral k :: int) < 2 ^ 53 \<Longrightarrow> isDouble (- numeral k)"
  "isDouble 0" "isDouble 1"
  using isDouble_of_int[of "numeral k"] isDouble_of_int[of "- numeral k"]
    isDouble_of_int[of 0] isDouble_of_int[of 1]
  by simp_all

lemma rnd_numeral:
  "(numeral k :: int) < 2 ^ 53 \<Longrightarrow> rnd (numeral k) = Fin (numeral k)"
  "(numeral k :: int) < 2 ^ 53 \<Longrightarrow> rnd (- numeral k) = Fin (- numeral k)"
  "rnd 0 = Fin 0"
  by (simp_all add: rnd_exact isDouble_numeral)


section \<open>Values of the formulas at concrete inputs\<close>

lemma fee_default: "rnd (11 / 50) = Fin (7926335344172073 / 36028797018963968)"
  by code_simp

lemma isDouble_fee_default: "isDouble (7926335344172073 / 36028797018963968)"
  using fee_default by (rule rnd_Fin_isDouble)

lemma isDouble_half: "isDouble (1 / 2)"
  by code_simp

lemma sellingPrice_default_100: "calculateSellingPrice (Fin 100) defaultSettings = Fin 13206"
  by code_simp

lemma sellingPrice_rate25_100:
  "calculateSellingPrice (Fin 100) (defaultSettings\<lparr>exchangeRate := Fin 25\<rparr>) = Fin 13462"
  by code_simp

section \<open>The formulas\<close>

text \<open>
  C1, as stated: for every cost that is not negative and every fee rate in [0,1) the
  selling price is the ceiling of (cost * exchangeRate + internationalShipping +
  domesticShipping + targetProfit) / (1 - platformFeeRate). The code computes in doubles
  and rounds after every operation: for the cost 0.02 (the double nearest to it) and the
  default settings the code returns 10257, and the ceiling of the exact quotient of the
  same inputs is 10258.
\<close>

theorem calculateSellingPrice_formula_counterexample:
  "le (Fin 0) (rnd 0.02) \<and> validSettings defaultSettings
   \<and> calculateSellingPrice (rnd 0.02) defaultSettings = Fin 10257
   \<and> \<lceil>(the_real (rnd 0.02) * the_real (exchangeRate defaultSettings)
        + the_real (internationalShipping defaultSettings)
        + the_real (domesticShipping defaultSettings)
        + the_real (targetProfit defaultSettings))
       / (1 - the_real (platformFeeRate defaultSettings))\<rceil> = 10258"
  by code_simp

text \<open>
  C1, amended. The selling price is Math.ceil of the formula evaluated in double
  arithmetic, every operation rounded to the nearest double: the product
  cost * exchangeRate, the three sums from left to right, the difference
  1 - platformFeeRate and the quotient. For the default settings (rate 23, shipping 1000
  and 1000, profit 6000, fee 0.22) a cost of 100 gives 13206. Where none of the six
  operations has to round, the result is the ceiling of the exact value of
  (cost * exchangeRate + internationalShipping + domesticShipping + targetProfit)
  / (1 - platformFeeRate).
\<close>

theorem calculateSellingPrice_formula:
  "calculateSellingPrice costCNY s =
     Math_ceil (fdiv (fadd (fadd (fadd (fmul costCNY (exchangeRate s))
                                       (internationalShipping s))
                                 (domesticShipping s))
                           (targetProfit s))
                     (fsub (Fin 1) (platformFeeRate s)))
   \<and> calculateSellingPrice (Fin 100)
        \<lparr>exchangeRate = Fin 23, internationalShipping = Fin 1000,
         domesticShipping = Fin 1000, targetProfit = Fin 6000,
         platformFeeRate = rnd 0.22\<rparr> = Fin 13206
   \<and> (isDouble (c * r) \<and> isDouble (c * r + i) \<and> isDouble (c * r + i + d)
       \<and> isDouble (c * r + i + d + p) \<and> isDouble (1 - f) \<and> f \<noteq> 1
       \<and> isDouble ((c * r + i + d + p) / (1 - f)) \<longrightarrow>
       calculateSellingPrice (Fin c)
         \<lparr>exchangeRate = Fin r, internationalShipping = Fin i, domesticShipping = Fin d,
          targetProfit = Fin p, platformFeeRate = Fin f\<rparr>
       = Fin (of_int \<lceil>(c * r + i + d + p) / (1 - f)\<rceil>))"
proof (intro conjI impI)
  show "calculateSellingPrice costCNY s =
     Math_ceil (fdiv (fadd (fadd (fadd (fmul costCNY (exchangeRate s))
                                       (internationalShipping s))
                                 (domesticShipping s))
                           (targetProfit s))
                     (fsub (Fin 1) (platformFeeRate s)))"
    by (simp add: calculateSellingPrice_def)
  show "calculateSellingPrice (Fin 100)
        \<lparr>exchangeRate = Fin 23, internationalShipping = Fin 1000,
         domesticShipping = Fin 1000, targetProfit = Fin 6000,
         platformFeeRate = rnd 0.22\<rparr> = Fin 13206"
    using sellingPrice_default_100 by (simp add: defaultSettings_def)
next
  assume a: "isDouble (c * r) \<and> isDouble (c * r + i) \<and> isDouble (c * r + i + d)
       \<and> isDouble (c * r + i + d + p) \<and> isDouble (1 - f) \<and> f \<noteq> 1
       \<and> isDouble ((c * r + i + d + p) / (1 - f))"
  then show "calculateSellingPrice (Fin c)
         \<lparr>exchangeRate = Fin r, internationalShipping = Fin i, domesticShipping = Fin d,
          targetProfit = Fin p, platformFeeRate = Fin f\<rparr>
       = Fin (of_int \<lceil>(c * r + i + d + p) / (1 - f)\<rceil>)"
    by (simp add: calculateSellingPrice_def rnd_exact)
qed

theorem calculateSellingPrice_formula_witness:
  "isDouble (100 * 23) \<and> isDouble (100 * 23 + 1000) \<and> isDouble (100 * 23 + 1000 + 1000)
   \<and> isDouble (100 * 23 + 1000 + 1000 + 6000) \<and> isDouble (1 - 1 / 2)
   \<and> isDouble ((100 * 23 + 1000 + 1000 + 6000) / (1 - 1 / 2))
   \<and> calculateSellingPrice (Fin 100)
        \<lparr>exchangeRate = Fin 23, internationalShipping = Fin 1000,
         domesticShipping = Fin 1000, targetProfit = Fin 6000,
         platformFeeRate = Fin (1 / 2)\<rparr> = Fin 20600
   \<and> calculateSellingPrice (Fin 100) defaultSettings = Fin 13206"
  using calculateSellingPrice_formula
    [where c = 100 and r = 23 and i = 1000 and d = 1000 and p = 6000 and f = "1 / 2"
       and costCNY = "Fin 0" and s = defaultSettings]
  by (simp add: isDouble_numeral isDouble_half defaultSettings_def)

text \<open>
  C5, as stated: the selling price is at least cost * exchangeRate. Against the exact
  product it is not: the code rounds the product before it goes on. For the cost 0.04
  (the double nearest to it), the rate 25 and no shipping, profit or fee, the code
  returns 1, and the exact product of the two inputs is larger than 1.
\<close>

theorem calculateSellingPrice_ge_converted_cost_counterexample:
  "le (Fin 0) (rnd 0.04)
   \<and> calculateSellingPrice (rnd 0.04)
        \<lparr>exchangeRate = Fin 25, internationalShipping = Fin 0, domesticShipping = Fin 0,
         targetProfit = Fin 0, platformFeeRate = Fin 0\<rparr> = Fin 1
   \<and> 1 < the_real (rnd 0.04) * 25"
  by code_simp

text \<open>
  C5, amended. For a cost that is not negative and settings with a positive exchange
  rate, a fee rate in [0,1) and shipping costs and target profit that are not negative,
  the selling price is at least the converted cost as the code computes it: the product
  cost * exchangeRate rounded to the nearest double.
\<close>

theorem calculateSellingPrice_ge_converted_cost:
  assumes "0 \<le> c" and "0 < r" and "0 \<le> i" and "0 \<le> d" and "0 \<le> p"
    and "isDouble f" and "0 \<le> f" and "f < 1"
  shows "le (fmul (Fin c) (Fin r))
           (calculateSellingPrice (Fin c)
              \<lparr>exchangeRate = Fin r, internationalShipping = Fin i,
               domesticShipping = Fin d, targetProfit = Fin p, platformFeeRate = Fin f\<rparr>)"
proof -
  let ?base = "fmul (Fin c) (Fin r)"
  let ?t1 = "fadd ?base (Fin i)"
  let ?t2 = "fadd ?t1 (Fin d)"
  let ?total = "fadd ?t2 (Fin p)"
  obtain q where q: "rnd (1 - f) = Fin q" "0 < q" "q \<le> 1"
    using fee_denominator[OF assms(6-8)] by auto
  have b: "nonnegDouble ?base"
    using assms(1,2) by (simp add: nonnegDouble_rnd)
  note s1 = fadd_nonneg[OF b assms(3)]
  note s2 = fadd_nonneg[OF s1(1) assms(4)]
  note s3 = fadd_nonneg[OF s2(1) assms(5)]
  note s4 = fdiv_nonneg[OF s3(1) q(2,3)]
  note s5 = Math_ceil_nonneg[OF s4(1)]
  have "le ?base (Math_ceil (fdiv ?total (Fin q)))"
    using s1(2) s2(2) s3(2) s4(2) s5 by (blast intro: le_trans)
  then show ?thesis
    by (simp add: calculateSellingPrice_def q(1))
qed

theorem calculateSellingPrice_ge_converted_cost_witness:
  "isDouble (7926335344172073 / 36028797018963968)
   \<and> platformFeeRate defaultSettings = Fin (7926335344172073 / 36028797018963968)
   \<and> fmul (Fin 100) (Fin 23) = Fin 2300
   \<and> le (fmul (Fin 100) (Fin 23)) (calculateSellingPrice (Fin 100) defaultSettings)"
  using calculateSellingPrice_ge_converted_cost
    [of 100 23 1000 1000 6000 "7926335344172073 / 36028797018963968"]
  by (simp add: isDouble_fee_default defaultSettings_def fee_default rnd_numeral)




text \<open>
  C7, as stated: with a platform fee rate of 0 the selling price equals the total
  cost * exchangeRate + internationalShipping + domesticShipping + targetProfit exactly.
  It does not when the total is not an integer: a cost of 0.5 CNY at the rate 23 with
  shipping 1000 and 1000 and profit 6000 has the total 8011.5 and the selling price 8012.
\<close>

theorem calculateSellingPrice_zero_fee_counterexample:
  "calculateSellingPrice (Fin 0.5)
     \<lparr>exchangeRate = Fin 23, internationalShipping = Fin 1000, domesticShipping = Fin 1000,
      targetProfit = Fin 6000, platformFeeRate = Fin 0\<rparr> = Fin 8012
   \<and> fadd (fadd (fadd (fmul (Fin 0.5) (Fin 23)) (Fin 1000)) (Fin 1000)) (Fin 6000)
       = Fin 8011.5
   \<and> (0.5::real) * 23 + 1000 + 1000 + 6000 = 8011.5
   \<and> calculateSellingPrice (Fin 0.5)
        \<lparr>exchangeRate = Fin 23, internationalShipping = Fin 1000,
         domesticShipping = Fin 1000, targetProfit = Fin 6000, platformFeeRate = Fin 0\<rparr>
      \<noteq> Fin (0.5 * 23 + 1000 + 1000 + 6000)"
  by code_simp

text \<open>
  C7, amended. With a platform fee rate of 0 the selling price is Math.ceil of the total
  as the code computes it (the product cost * exchangeRate and the three sums, each
  rounded to the nearest double); the division by 1 - 0 changes nothing. The selling
  price equals that total when the total is an integer.
\<close>

theorem calculateSellingPrice_zero_fee:
  assumes "platformFeeRate s = Fin 0"
  shows "calculateSellingPrice costCNY s =
           Math_ceil (fadd (fadd (fadd (fmul costCNY (exchangeRate s))
                                       (internationalShipping s))
                                 (domesticShipping s))
                           (targetProfit s))
         \<and> (fadd (fadd (fadd (fmul costCNY (exchangeRate s)) (internationalShipping s))
                        (domesticShipping s))
                  (targetProfit s) = Fin t \<and> t \<in> \<int> \<longrightarrow>
            calculateSellingPrice costCNY s = Fin t)"
proof (intro conjI impI)
  show ceil: "calculateSellingPrice costCNY s =
      Math_ceil (fadd (fadd (fadd (fmul costCNY (exchangeRate s))
                                  (internationalShipping s))
                            (domesticShipping s))
                      (targetProfit s))"
    using assms by (simp add: calculateSellingPrice_def fdiv_one_fadd)
  assume "fadd (fadd (fadd (fmul costCNY (exchangeRate s)) (internationalShipping s))
                        (domesticShipping s))
                  (targetProfit s) = Fin t \<and> t \<in> \<int>"
  then show "calculateSellingPrice costCNY s = Fin t"
    using ceil by (auto elim: Ints_cases)
qed

theorem calculateSellingPrice_zero_fee_witness:
  "platformFeeRate (defaultSettings\<lparr>platformFeeRate := Fin 0\<rparr>) = Fin 0
   \<and> fadd (fadd (fadd (fmul (Fin 100) (Fin 23)) (Fin 1000)) (Fin 1000)) (Fin 6000)
       = Fin 10300
   \<and> (10300::real) \<in> \<int>
   \<and> calculateSellingPrice (Fin 100) (defaultSettings\<lparr>platformFeeRate := Fin 0\<rparr>)
       = Fin 10300"
  using calculateSellingPrice_zero_fee
    [of "defaultSettings\<lparr>platformFeeRate := Fin 0\<rparr>" "Fin 100" 10300]
  by (simp add: defaultSettings_def rnd_numeral)

section \<open>The order side and the recalculation sweep\<close>

lemma updatedOrder_shipping_independent:
  "updatedOrder (sett\<lparr>internationalShipping := a, domesticShipping := b\<rparr>) updates item
     = updatedOrder sett updates item"
  by (simp add: updatedOrder_def Let_def cong: partial.case_cong if_cong)

text \<open>
  C4, as stated: without a shipping argument, calculateConvertedWithShipping(cost, rate)
  equals ceiling(cost * rate + 1000). The code computes in doubles and rounds the product
  before it adds: for the cost 0.04 (the double nearest to it) and the rate 25 the code
  returns 1001, and the ceiling of the exact value of cost * rate + 1000 for the same
  inputs is 1002.
\<close>

theorem calculateConvertedWithShipping_default_counterexample:
  "le (Fin 0) (rnd 0.04)
   \<and> calculateConvertedWithShipping (rnd 0.04) (Fin 25) None = Fin 1001
   \<and> \<lceil>the_real (rnd 0.04) * 25 + 1000\<rceil> = 1002"
  by code_simp

text \<open>
  C4, amended. Without a shipping argument, calculateConvertedWithShipping(cost, rate)
  is Math.ceil of cost * rate + 1000 evaluated in double arithmetic, the product and the
  sum each rounded to the nearest double; it is ceiling(cost * rate + 1000) where neither
  operation has to round, and calculateConvertedWithShipping(10, 20) is 1200.
  addOrderItem, updateOrderItem and recalculateAllPrices call it without a shipping
  argument: the order that addOrderItem appends, an order that updateOrderItem gives a
  new cost, and every order after the sweep have convertedWithShipping =
  calculateConvertedWithShipping(costPriceCNY, settings.exchangeRate), and the orders
  these operations produce do not depend on settings.internationalShipping and
  settings.domesticShipping.
\<close>

theorem calculateConvertedWithShipping_default:
  "calculateConvertedWithShipping costCNY rate None
     = Math_ceil (fadd (fmul costCNY rate) (Fin 1000))
   \<and> calculateConvertedWithShipping (Fin 10) (Fin 20) None = Fin 1200
   \<and> (isDouble (c * r) \<and> isDouble (c * r + 1000) \<longrightarrow>
        calculateConvertedWithShipping (Fin c) (Fin r) None = Fin (of_int \<lceil>c * r + 1000\<rceil>))
   \<and> map orders (stores (addOrderItem newId now item createdAt st))
       = map (\<lambda>s. if Some (store_id s) = activeStoreId st
                   then orders s @ [newOrderItem newId now item createdAt (settings st)]
                   else orders s) (stores st)
   \<and> ord_convertedWithShipping (newOrderItem newId now item createdAt (settings st))
       = calculateConvertedWithShipping (in_costPriceCNY item) (exchangeRate (settings st))
           None
   \<and> map orders (stores (updateOrderItem itemId updates st))
       = map (\<lambda>s. if Some (store_id s) = activeStoreId st
                   then map (\<lambda>order. if ord_id order = Some itemId
                                       then updatedOrder (settings st) updates order
                                       else order) (orders s)
                   else orders s) (stores st)
   \<and> (upd_costPriceCNY updates = Present v \<and> v \<noteq> Undefined \<longrightarrow>
        ord_convertedWithShipping (updatedOrder (settings st) updates order)
          = calculateConvertedWithShipping v (exchangeRate (settings st)) None)
   \<and> list_all (\<lambda>s. list_all (\<lambda>order. ord_convertedWithShipping order =
          calculateConvertedWithShipping (ord_costPriceCNY order)
            (exchangeRate (settings st)) None) (orders s))
        (stores (recalculateAllPrices st))
   \<and> stores (addOrderItem newId now item createdAt
        (st\<lparr>settings := (settings st)\<lparr>internationalShipping := a, domesticShipping := b\<rparr>\<rparr>))
      = stores (addOrderItem newId now item createdAt st)
   \<and> stores (updateOrderItem itemId updates
        (st\<lparr>settings := (settings st)\<lparr>internationalShipping := a, domesticShipping := b\<rparr>\<rparr>))
      = stores (updateOrderItem itemId updates st)
   \<and> map orders (stores (recalculateAllPrices
        (st\<lparr>settings := (settings st)\<lparr>internationalShipping := a, domesticShipping := b\<rparr>\<rparr>)))
      = map orders (stores (recalculateAllPrices st))"
proof (intro conjI impI)
  show "calculateConvertedWithShipping costCNY rate None
     = Math_ceil (fadd (fmul costCNY rate) (Fin 1000))"
    by (simp add: calculateConvertedWithShipping_def)
  show "calculateConvertedWithShipping (Fin 10) (Fin 20) None = Fin 1200"
    by (simp add: calculateConvertedWithShipping_def rnd_numeral)
  show "map orders (stores (addOrderItem newId now item createdAt st))
       = map (\<lambda>s. if Some (store_id s) = activeStoreId st
                   then orders s @ [newOrderItem newId now item createdAt (settings st)]
                   else orders s) (stores st)"
    by (simp add: addOrderItem_def Let_def)
  show "ord_convertedWithShipping (newOrderItem newId now item createdAt (settings st))
       = calculateConvertedWithShipping (in_costPriceCNY item) (exchangeRate (settings st))
           None"
    by (simp add: newOrderItem_def Let_def)
  show "map orders (stores (updateOrderItem itemId updates st))
       = map (\<lambda>s. if Some (store_id s) = activeStoreId st
                   then map (\<lambda>order. if ord_id order = Some itemId
                                       then updatedOrder (settings st) updates order
                                       else order) (orders s)
                   else orders s) (stores st)"
    by (simp add: updateOrderItem_def)
  show "list_all (\<lambda>s. list_all (\<lambda>order. ord_convertedWithShipping order =
          calculateConvertedWithShipping (ord_costPriceCNY order)
            (exchangeRate (settings st)) None) (orders s))
        (stores (recalculateAllPrices st))"
    by (simp add: recalculateAllPrices_def list_all_iff Let_def)
  show "stores (addOrderItem newId now item createdAt
        (st\<lparr>settings := (settings st)\<lparr>internationalShipping := a, domesticShipping := b\<rparr>\<rparr>))
      = stores (addOrderItem newId now item createdAt st)"
    by (simp add: addOrderItem_def newOrderItem_def Let_def)
  show "stores (updateOrderItem itemId updates
        (st\<lparr>settings := (settings st)\<lparr>internationalShipping := a, domesticShipping := b\<rparr>\<rparr>))
      = stores (updateOrderItem itemId updates st)"
    by (simp add: updateOrderItem_def updatedOrder_shipping_independent)
  show "map orders (stores (recalculateAllPrices
        (st\<lparr>settings := (settings st)\<lparr>internationalShipping := a, domesticShipping := b\<rparr>\<rparr>)))
      = map orders (stores (recalculateAllPrices st))"
    by (simp add: recalculateAllPrices_def Let_def)
next
  assume "isDouble (c * r) \<and> isDouble (c * r + 1000)"
  then show "calculateConvertedWithShipping (Fin c) (Fin r) None
      = Fin (of_int \<lceil>c * r + 1000\<rceil>)"
    by (simp add: calculateConvertedWithShipping_def rnd_exact)
next
  assume "upd_costPriceCNY updates = Present v \<and> v \<noteq> Undefined"
  then show "ord_convertedWithShipping (updatedOrder (settings st) updates order)
      = calculateConvertedWithShipping v (exchangeRate (settings st)) None"
    by (simp add: updatedOrder_def Let_def notUndefined_def)
qed

theorem calculateConvertedWithShipping_default_witness:
  "isDouble (50 * 23) \<and> isDouble (50 * 23 + 1000)
   \<and> calculateConvertedWithShipping (Fin 50) (Fin 23) None = Fin 2150
   \<and> upd_costPriceCNY (noOrderUpdates\<lparr>upd_costPriceCNY := Present (Fin 60)\<rparr>)
       = Present (Fin 60)
   \<and> ord_convertedWithShipping
        (updatedOrder (settings exampleState)
           (noOrderUpdates\<lparr>upd_costPriceCNY := Present (Fin 60)\<rparr>) exampleOrder)
       = calculateConvertedWithShipping (Fin 60) (Fin 25) None
   \<and> ord_convertedWithShipping
        (newOrderItem (utf16 ''o2'') (utf16 ''2026-02-01'') exampleOrderInput None
           (settings exampleState))
       = calculateConvertedWithShipping (Fin 50) (Fin 25) None
   \<and> map orders (stores (recalculateAllPrices
        (exampleState\<lparr>settings :=
           (settings exampleState)\<lparr>internationalShipping := Fin 5000,
                                    domesticShipping := Fin 7000\<rparr>\<rparr>)))
      = map orders (stores (recalculateAllPrices exampleState))"
  using calculateConvertedWithShipping_default
    [where c = 50 and r = 23 and newId = "utf16 ''o2''" and now = "utf16 ''2026-02-01''"
       and item = exampleOrderInput and createdAt = None and st = exampleState
       and a = "Fin 5000" and b = "Fin 7000" and itemId = "utf16 ''o1''"
       and updates = "noOrderUpdates\<lparr>upd_costPriceCNY := Present (Fin 60)\<rparr>"
       and v = "Fin 60" and order = exampleOrder and costCNY = "Fin 0" and rate = "Fin 0"]
  by (simp add: isDouble_numeral exampleState_def exampleOrderInput_def)

text \<open>
  C2. After recalculateAllPrices under the current settings, every inventory item of
  every store has sellingPriceJPY = calculateSellingPrice(costPriceCNY, settings), every
  order has convertedWithShipping = calculateConvertedWithShipping(costPriceCNY,
  settings.exchangeRate) and profit = actualPayment - convertedWithShipping; every other
  field of every item is unchanged, and so are the stores' ids and names, the number and
  order of the stores and of their items, the active store and the settings.
\<close>

theorem recalculateAllPrices_effect:
  "activeStoreId (recalculateAllPrices st) = activeStoreId st
   \<and> settings (recalculateAllPrices st) = settings st
   \<and> length (stores (recalculateAllPrices st)) = length (stores st)
   \<and> (\<forall>i < length (stores st).
        store_id (stores (recalculateAllPrices st) ! i) = store_id (stores st ! i)
        \<and> store_name (stores (recalculateAllPrices st) ! i) = store_name (stores st ! i)
        \<and> length (inventory (stores (recalculateAllPrices st) ! i))
            = length (inventory (stores st ! i))
        \<and> length (orders (stores (recalculateAllPrices st) ! i))
            = length (orders (stores st ! i))
        \<and> (\<forall>j < length (inventory (stores st ! i)).
              sameInventoryAttributes (inventory (stores (recalculateAllPrices st) ! i) ! j)
                (inventory (stores st ! i) ! j)
              \<and> inv_sellingPriceJPY (inventory (stores (recalculateAllPrices st) ! i) ! j)
                  = calculateSellingPrice (inv_costPriceCNY (inventory (stores st ! i) ! j))
                      (settings st))
        \<and> (\<forall>k < length (orders (stores st ! i)).
              sameOrderAttributes (orders (stores (recalculateAllPrices st) ! i) ! k)
                (orders (stores st ! i) ! k)
              \<and> ord_convertedWithShipping (orders (stores (recalculateAllPrices st) ! i) ! k)
                  = calculateConvertedWithShipping (ord_costPriceCNY (orders (stores st ! i) ! k))
                      (exchangeRate (settings st)) None
              \<and> ord_profit (orders (stores (recalculateAllPrices st) ! i) ! k)
                  = fsub (ord_actualPayment (orders (stores st ! i) ! k))
                      (calculateConvertedWithShipping
                        (ord_costPriceCNY (orders (stores st ! i) ! k))
                        (exchangeRate (settings st)) None)))"
  by (simp add: recalculateAllPrices_def Let_def sameInventoryAttributes_def
      sameOrderAttributes_def calculateProfit_def)

theorem recalculateAllPrices_effect_witness:
  "length (stores (recalculateAllPrices exampleState)) = 1
   \<and> exchangeRate (settings (recalculateAllPrices exampleState)) = Fin 25
   \<and> store_id (stores (recalculateAllPrices exampleState) ! 0) = utf16 ''s1''
   \<and> inv_productName (inventory (stores (recalculateAllPrices exampleState) ! 0) ! 0)
       = Some (utf16 ''coat'')
   \<and> inv_sellingPriceJPY (inventory (stores (recalculateAllPrices exampleState) ! 0) ! 0)
       = Fin 13462
   \<and> ord_createdAt (orders (stores (recalculateAllPrices exampleState) ! 0) ! 0)
       = Some (utf16 ''2026-01-15'')
   \<and> ord_convertedWithShipping (orders (stores (recalculateAllPrices exampleState) ! 0) ! 0)
       = Fin 2250
   \<and> ord_profit (orders (stores (recalculateAllPrices exampleState) ! 0) ! 0) = Fin 750"
  using recalculateAllPrices_effect [of exampleState] sellingPrice_rate25_100
  by (simp add: exampleState_def exampleStore_def exampleInventoryItem_def exampleOrder_def
      sameInventoryAttributes_def sameOrderAttributes_def
      calculateConvertedWithShipping_def rnd_numeral)

text \<open>
  C3. The recalculation sweep is idempotent: for every state (every list of stores and
  every settings value), running it twice in succession gives exactly the state that
  running it once gives.
\<close>

theorem recalculateAllPrices_idempotent:
  "recalculateAllPrices (recalculateAllPrices st) = recalculateAllPrices st"
  by (simp add: recalculateAllPrices_def Let_def comp_def)

theorem recalculateAllPrices_idempotent_witness:
  "recalculateAllPrices (recalculateAllPrices exampleState) = recalculateAllPrices exampleState"
  using recalculateAllPrices_idempotent [of exampleState] by simp

subsection \<open>The profit invariant\<close>

lemma orderConsistent_newOrderItem:
  "orderConsistent (newOrderItem newId now item createdAt sett)"
  by (simp add: orderConsistent_def newOrderItem_def calculateProfit_def Let_def)

lemma ordersConsistent_addOrderItem:
  "ordersConsistent st \<Longrightarrow> ordersConsistent (addOrderItem newId now item createdAt st)"
  by (auto simp add: ordersConsistent_def addOrderItem_def Let_def list_all_iff
      orderConsistent_newOrderItem)

lemma ordersConsistent_recalculateAllPrices:
  "ordersConsistent (recalculateAllPrices st)"
  by (simp add: ordersConsistent_def recalculateAllPrices_def orderConsistent_def
      calculateProfit_def Let_def list_all_iff)

text \<open>
  An update that carries attribute fields only keeps the invariant of the order it
  changes, unless it carries \<open>actualPayment: undefined\<close> and no cost.
\<close>

lemma orderConsistent_updatedOrder:
  assumes "attributeUpdate updates" and "orderConsistent item"
    and "upd_actualPayment updates \<noteq> Present Undefined
         \<or> notUndefined (upd_costPriceCNY updates)"
  shows "orderConsistent (updatedOrder sett updates item)"
proof (cases "notUndefined (upd_actualPayment updates) \<or> notUndefined (upd_costPriceCNY updates)")
  case True
  then show ?thesis
    by (simp add: orderConsistent_def updatedOrder_def calculateProfit_def Let_def
        split: partial.split)
next
  case False
  with assms(3) have "upd_actualPayment updates = Absent"
    by (cases "upd_actualPayment updates") (auto simp add: notUndefined_def)
  with False assms(1,2) show ?thesis
    by (auto simp add: orderConsistent_def updatedOrder_def spreadOrder_def spread_def
        attributeUpdate_def notUndefined_def Let_def split: partial.split)
qed

text \<open>
  C10. The invariant profit = actualPayment - convertedWithShipping is meant to hold
  after updateOrderItem whenever the update carries attribute fields only. The update
  \<open>{ actualPayment: undefined }\<close> is such an update: the spread copies \<open>undefined\<close> over
  the stored payment, the guard \<open>updates.actualPayment !== undefined\<close> skips the
  recomputation, and the order keeps the profit 850 while actualPayment -
  convertedWithShipping is NaN.
\<close>

theorem updateOrderItem_undefined_payment:
  "ordersConsistent exampleState
   \<and> attributeUpdate (noOrderUpdates\<lparr>upd_actualPayment := Present Undefined\<rparr>)
   \<and> ord_actualPayment (orders (stores (updateOrderItem (utf16 ''o1'')
        (noOrderUpdates\<lparr>upd_actualPayment := Present Undefined\<rparr>) exampleState) ! 0) ! 0)
       = Undefined
   \<and> ord_convertedWithShipping (orders (stores (updateOrderItem (utf16 ''o1'')
        (noOrderUpdates\<lparr>upd_actualPayment := Present Undefined\<rparr>) exampleState) ! 0) ! 0)
       = Fin 2150
   \<and> ord_profit (orders (stores (updateOrderItem (utf16 ''o1'')
        (noOrderUpdates\<lparr>upd_actualPayment := Present Undefined\<rparr>) exampleState) ! 0) ! 0)
       = Fin 850
   \<and> fsub Undefined (Fin 2150) = NaN
   \<and> \<not> ordersConsistent (updateOrderItem (utf16 ''o1'')
        (noOrderUpdates\<lparr>upd_actualPayment := Present Undefined\<rparr>) exampleState)"
  by (simp add: ordersConsistent_def orderConsistent_def exampleState_def exampleStore_def
      exampleOrder_def updateOrderItem_def updatedOrder_def spreadOrder_def spread_def
      noOrderUpdates_def attributeUpdate_def notUndefined_def Let_def rnd_numeral)

section \<open>Validation at the edges\<close>

lemma handleSubmit_rejects:
  "trim (new_productName newItem) = [] \<or> \<not> gt (new_costPriceCNY newItem) (Fin 0) \<Longrightarrow>
     handleSubmit newId newItem st = (newItem, st)"
  by (auto simp add: handleSubmit_def)

lemma handleSubmit_accepts:
  "trim (new_productName newItem) \<noteq> [] \<Longrightarrow> gt (new_costPriceCNY newItem) (Fin 0) \<Longrightarrow>
     handleSubmit newId newItem st = (emptyItem, addInventoryItem newId newItem st)"
  by (simp add: handleSubmit_def)

text \<open>
  C8. The creation of an inventory item is meant to be rejected when the quantity is not
  positive. The quantity field accepts -3: \<open>parseInt\<close> gives -3, which is truthy, so the
  handler stores it, and \<open>handleSubmit\<close>, which looks at the name and the cost only,
  creates the item with the quantity -3.
\<close>

theorem handleSubmit_negative_quantity:
  "new_quantity (onChange_quantity (Fin (- 3)) exampleInventoryInput) = Fin (- 3)
   \<and> le (Fin (- 3)) (Fin 0)
   \<and> handleSubmit (utf16 ''i2'') (onChange_quantity (Fin (- 3)) exampleInventoryInput)
        exampleState
       \<noteq> (onChange_quantity (Fin (- 3)) exampleInventoryInput, exampleState)
   \<and> map inv_quantity
        (inventory (stores (snd (handleSubmit (utf16 ''i2'')
           (onChange_quantity (Fin (- 3)) exampleInventoryInput) exampleState)) ! 0))
       = [Fin 2, Fin (- 3)]"
  by (simp add: handleSubmit_def onChange_quantity_def num_or_def exampleInventoryInput_def
      exampleState_def exampleStore_def exampleInventoryItem_def addInventoryItem_def
      newInventoryItem_def trim_def utf16_def isWhiteSpace_def emptyItem_def gt_def Let_def)

text \<open>
  C9. An update of the settings with a negative shipping cost or a fee rate of 1 or more
  is meant to be rejected, leaving the settings unchanged. Entering -500 in the
  international shipping field stores -500, and entering 100 in the fee field (a
  percentage) stores the fee rate 1: \<open>handleChange\<close> and \<open>updateSettings\<close> check nothing.
\<close>

theorem updateSettings_stores_invalid:
  "validSettings (settings exampleState)
   \<and> internationalShipping
        (settings (onChange_internationalShipping (Fin (- 500)) exampleState)) = Fin (- 500)
   \<and> settings (onChange_internationalShipping (Fin (- 500)) exampleState)
       \<noteq> settings exampleState
   \<and> \<not> validSettings (settings (onChange_internationalShipping (Fin (- 500)) exampleState))
   \<and> platformFeeRate (settings (onChange_platformFeeRate (Fin 100) exampleState)) = Fin 1
   \<and> \<not> validSettings (settings (onChange_platformFeeRate (Fin 100) exampleState))"
  by (simp add: validSettings_def exampleState_def defaultSettings_def fee_default
      onChange_platformFeeRate_def onChange_internationalShipping_def handleChange_def
      updateSettings_def spreadSettings_def spread_def noSettingsUpdates_def num_or_def)

end
